theory Spec2Isabelle
  imports Main "HOL-Library.Word"
begin

section \<open>Strings and values of the host language\<close>

text \<open>
  A JavaScript string is a sequence of UTF-16 code units. The literals of
  \<^verbatim>\<open>src/check.ts\<close> are written out as their code units; all of them lie in
  the basic plane, so each character is one unit.
\<close>

type_synonym jsstring = "16 word list"

text \<open>A literal of ASCII characters, one code unit each.\<close>

definition ascii :: "string \<Rightarrow> jsstring" where
  "ascii s = map of_char s"

text \<open>The empty string literal of lines 30 and 31.\<close>

definition empty_string :: jsstring where
  "empty_string = []"

text \<open>The three case labels of the switch, lines 35, 38 and 41.\<close>

definition str_Bot :: jsstring where
  "str_Bot = ascii ''Bot''"

definition str_Adapter :: jsstring where
  "str_Adapter = ascii ''Adapter''"

definition str_Plugin :: jsstring where
  "str_Plugin = ascii ''Plugin''"

text \<open>The message of \<^verbatim>\<open>core.setFailed\<close>, line 21 ("cannot get the issue").\<close>

definition msg_no_issue :: jsstring where
  "msg_no_issue = [0x65E0, 0x6CD5, 0x83B7, 0x53D6, 0x8BAE, 0x9898]"

text \<open>The message of \<^verbatim>\<open>core.info\<close>, line 46 ("the pull request is unrelated
  to plugins, skipped").\<close>

definition msg_skipped :: jsstring where
  "msg_skipped = [0x62C9, 0x53D6, 0x8BF7, 0x6C42, 0x4E0E, 0x63D2, 0x4EF6, 0x65E0, 0x5173,
                  0xFF0C, 0x5DF2, 0x8DF3, 0x8FC7]"

text \<open>The fixed parts of the template literals of lines 55, 56, 59 and 65:
  "plugin ", " has no problem", "bot " and "adapter ".\<close>

definition plugin_prefix :: jsstring where
  "plugin_prefix = [0x63D2, 0x4EF6, 0x20]"

definition plugin_ok_suffix :: jsstring where
  "plugin_ok_suffix = [0x20, 0x6CA1, 0x6709, 0x95EE, 0x9898]"

definition bot_prefix :: jsstring where
  "bot_prefix = [0x673A, 0x5668, 0x4EBA, 0x20]"

definition adapter_prefix :: jsstring where
  "adapter_prefix = [0x9002, 0x914D, 0x5668, 0x20]"

text \<open>
  \<^verbatim>\<open>a ?? b\<close>: the right operand when the left one is null or undefined.
\<close>

definition nullish :: "'a option \<Rightarrow> 'a \<Rightarrow> 'a" where
  "nullish a b = (case a of None \<Rightarrow> b | Some v \<Rightarrow> v)"

text \<open>
  \<^verbatim>\<open>a?.f\<close>: undefined when \<open>a\<close> is null or undefined, the field otherwise.
\<close>

definition optional_chain :: "'a option \<Rightarrow> ('a \<Rightarrow> 'b option) \<Rightarrow> 'b option" where
  "optional_chain a f = (case a of None \<Rightarrow> None | Some v \<Rightarrow> f v)"

section \<open>Data model\<close>

text \<open>The extension type the label classifier returns (null is \<open>None\<close>).\<close>

datatype ext_type = Bot | Adapter | Plugin

text \<open>
  The record \<^verbatim>\<open>extractInfo\<close> returns. Its \<^verbatim>\<open>type\<close> field is the string the
  switch of line 34 compares; TypeScript's union of the three literals is a
  compile-time promise only, so the field is a string here.
\<close>

record info =
  info_type :: jsstring
  name :: jsstring
  author :: jsstring

text \<open>The event payload, \<^verbatim>\<open>github.context\<close>: the pull request may be absent,
  and so may its labels.\<close>

record pull_request =
  labels :: "jsstring list option"
  head_ref :: jsstring

record repo =
  owner :: jsstring
  repo_name :: jsstring

record github_context =
  payload_pull_request :: "pull_request option"
  context_repo :: repo

text \<open>The response of \<^verbatim>\<open>octokit.issues.get\<close>: \<^verbatim>\<open>data.body\<close> and
  \<^verbatim>\<open>data.user\<close> may be null, and so may (by line 31) the login.\<close>

record issue_user =
  login :: "jsstring option"

record issue_data =
  body :: "jsstring option"
  user :: "issue_user option"

text \<open>What a rejected promise carries: a request error with its HTTP status.\<close>

datatype error = RequestError nat

text \<open>How a promise settles.\<close>

datatype 'a settled = Fulfilled 'a | Rejected error

text \<open>
  The API handle: how the promise of \<^verbatim>\<open>issues.get\<close> settles for a
  repository and an issue number, and how a comment creation settles for an
  issue number and a text.
\<close>

record octokit =
  issues_get :: "repo \<Rightarrow> int \<Rightarrow> issue_data settled"
  create_comment :: "int \<Rightarrow> jsstring \<Rightarrow> unit settled"

text \<open>
  The four functions imported from \<^verbatim>\<open>./utils\<close> (lines 3 to 8), whose code is
  not part of the sources: they are parameters of the model. The first
  three are pure; \<^verbatim>\<open>publishComment\<close> returns a promise, and the field gives
  how that promise settles. The parser returns an integer or null, so its
  result is never NaN; the ref it is given is undefined when the payload has
  no pull request.
\<close>

record utils =
  checkLabel :: "jsstring list option \<Rightarrow> ext_type option"
  extractIssueNumberFromRef :: "jsstring option \<Rightarrow> int option"
  extractInfo :: "ext_type \<Rightarrow> jsstring \<Rightarrow> jsstring \<Rightarrow> info"
  publishComment :: "octokit \<Rightarrow> int \<Rightarrow> jsstring \<Rightarrow> unit settled"

section \<open>Effects\<close>

text \<open>
  What a run does to the outside, in program order: the two reporting calls
  of \<^verbatim>\<open>@actions/core\<close>, the issue fetch, and the call of the comment
  publisher.
\<close>

datatype event =
    Info jsstring
  | SetFailed jsstring
  | IssuesGet repo int
  | PublishComment int jsstring

datatype validator = CheckBot | CheckAdapter | CheckPlugin

text \<open>
  A promise as its creator sees it: \<open>pending\<close> says whether it is still
  unsettled when the call that made it returns (the callee stopped at an
  \<^verbatim>\<open>await\<close>), and \<open>settles\<close> how it settles in the end.
\<close>

record promise =
  pending :: bool
  settles :: "unit settled"

text \<open>
  A call of an async function runs its body up to the first \<^verbatim>\<open>await\<close> and
  hands back a promise: the effects of the call, and the promise.
\<close>

record call =
  call_events :: "event list"
  call_promise :: promise

text \<open>
  A run of \<^verbatim>\<open>check\<close>: its effects, how its own promise settles, and the
  promises it created and dropped (a call with no \<^verbatim>\<open>await\<close> and no handler),
  each with the validator that returned it. \<^verbatim>\<open>check\<close> runs on to its end
  without waiting for a dropped promise, and a rejection of one does not
  reach the promise of \<^verbatim>\<open>check\<close>.
\<close>

record run =
  events :: "event list"
  outcome :: "unit settled"
  dropped :: "(validator \<times> promise) list"

section \<open>The validators, lines 50 to 66\<close>

text \<open>
  \<^verbatim>\<open>checkPlugin\<close> logs the name, calls \<^verbatim>\<open>publishComment\<close> and awaits its
  promise: the body stops there, and the promise of \<^verbatim>\<open>checkPlugin\<close> settles
  as the publisher's does.
\<close>

definition checkPlugin :: "utils \<Rightarrow> octokit \<Rightarrow> info \<Rightarrow> int \<Rightarrow> call" where
  "checkPlugin u oct i issue_number =
     (let text = plugin_prefix @ name i @ plugin_ok_suffix in
      \<lparr>call_events = [Info (plugin_prefix @ name i), PublishComment issue_number text],
       call_promise = \<lparr>pending = True, settles = publishComment u oct issue_number text\<rparr>\<rparr>)"

text \<open>The other two only log; with no \<^verbatim>\<open>await\<close> their promise is fulfilled
  when the call returns.\<close>

definition checkBot :: "octokit \<Rightarrow> info \<Rightarrow> call" where
  "checkBot oct i =
     \<lparr>call_events = [Info (bot_prefix @ name i)],
      call_promise = \<lparr>pending = False, settles = Fulfilled ()\<rparr>\<rparr>"

definition checkAdapter :: "octokit \<Rightarrow> info \<Rightarrow> call" where
  "checkAdapter oct i =
     \<lparr>call_events = [Info (adapter_prefix @ name i)],
      call_promise = \<lparr>pending = False, settles = Fulfilled ()\<rparr>\<rparr>"

section \<open>The dispatcher, lines 14 to 48\<close>

text \<open>The arguments of lines 16 and 18, read from the payload.\<close>

definition pr_labels :: "github_context \<Rightarrow> jsstring list option" where
  "pr_labels ctx = optional_chain (payload_pull_request ctx) labels"

definition pr_ref :: "github_context \<Rightarrow> jsstring option" where
  "pr_ref ctx = optional_chain (payload_pull_request ctx) (\<lambda>pr. Some (head_ref pr))"

text \<open>The run that ends at line 22, and the one of line 46.\<close>

definition failed_run :: run where
  "failed_run = \<lparr>events = [SetFailed msg_no_issue], outcome = Fulfilled (), dropped = []\<rparr>"

definition skipped_run :: run where
  "skipped_run = \<lparr>events = [Info msg_skipped], outcome = Fulfilled (), dropped = []\<rparr>"

text \<open>The value bound to \<^verbatim>\<open>info\<close>, lines 28 to 32.\<close>

definition issue_info :: "utils \<Rightarrow> ext_type \<Rightarrow> issue_data \<Rightarrow> info" where
  "issue_info u issueType issue =
     extractInfo u issueType
       (nullish (body issue) empty_string)
       (nullish (optional_chain (user issue) login) empty_string)"

text \<open>
  A statement that calls a validator and drops the promise: the effects of
  the call come after the earlier ones, and \<^verbatim>\<open>check\<close> goes on to its end.
\<close>

definition call_and_drop :: "event list \<Rightarrow> validator \<Rightarrow> call \<Rightarrow> run" where
  "call_and_drop earlier v c =
     \<lparr>events = earlier @ call_events c, outcome = Fulfilled (),
      dropped = [(v, call_promise c)]\<rparr>"

text \<open>The switch of lines 34 to 44, with strict equality on the string and
  no default case.\<close>

definition dispatch :: "utils \<Rightarrow> octokit \<Rightarrow> event list \<Rightarrow> info \<Rightarrow> int \<Rightarrow> run" where
  "dispatch u oct earlier i issue_number =
     (if info_type i = str_Bot then call_and_drop earlier CheckBot (checkBot oct i)
      else if info_type i = str_Adapter then
        call_and_drop earlier CheckAdapter (checkAdapter oct i)
      else if info_type i = str_Plugin then
        call_and_drop earlier CheckPlugin (checkPlugin u oct i issue_number)
      else \<lparr>events = earlier, outcome = Fulfilled (), dropped = []\<rparr>)"

text \<open>
  \<^verbatim>\<open>check\<close>. The test \<^verbatim>\<open>!issue_number\<close> of line 20 holds for null and for the
  number 0. The fetch of line 24 is awaited: when its promise is rejected,
  the promise of \<^verbatim>\<open>check\<close> is rejected with the same error and nothing
  more runs.
\<close>

definition check :: "utils \<Rightarrow> github_context \<Rightarrow> octokit \<Rightarrow> run" where
  "check u ctx oct =
     (case checkLabel u (pr_labels ctx) of
        Some issueType \<Rightarrow>
          (case extractIssueNumberFromRef u (pr_ref ctx) of
             None \<Rightarrow> failed_run
           | Some issue_number \<Rightarrow>
               if issue_number = 0 then failed_run
               else
                 (case issues_get oct (context_repo ctx) issue_number of
                    Rejected e \<Rightarrow>
                      \<lparr>events = [IssuesGet (context_repo ctx) issue_number],
                       outcome = Rejected e, dropped = []\<rparr>
                  | Fulfilled issue \<Rightarrow>
                      dispatch u oct [IssuesGet (context_repo ctx) issue_number]
                        (issue_info u issueType issue) issue_number))
      | None \<Rightarrow> skipped_run)"

section \<open>Observations on a run\<close>

fun is_fetch :: "event \<Rightarrow> bool" where
  "is_fetch (IssuesGet r n) = True"
| "is_fetch e = False"

fun is_comment :: "event \<Rightarrow> bool" where
  "is_comment (PublishComment n t) = True"
| "is_comment e = False"

fun is_failure :: "event \<Rightarrow> bool" where
  "is_failure (SetFailed m) = True"
| "is_failure e = False"

text \<open>The calls a run makes to the external API, in order.\<close>

definition api_calls :: "run \<Rightarrow> event list" where
  "api_calls r = filter (\<lambda>e. is_fetch e \<or> is_comment e) (events r)"

definition fetches :: "run \<Rightarrow> event list" where
  "fetches r = filter is_fetch (events r)"

definition comments :: "run \<Rightarrow> event list" where
  "comments r = filter is_comment (events r)"

definition failures :: "run \<Rightarrow> event list" where
  "failures r = filter is_failure (events r)"

text \<open>The validators a run called, in order.\<close>

definition invoked :: "run \<Rightarrow> validator list" where
  "invoked r = map fst (dropped r)"

section \<open>The helpers of \<^verbatim>\<open>./utils\<close>, from their contracts\<close>

text \<open>The string each extension type is written as.\<close>

fun tag :: "ext_type \<Rightarrow> jsstring" where
  "tag Bot = str_Bot"
| "tag Adapter = str_Adapter"
| "tag Plugin = str_Plugin"

text \<open>
  Modelled from the spec: \<^verbatim>\<open>checkLabel\<close> of \<^verbatim>\<open>./utils\<close> is missing from the
  sources. It scans the labels against a fixed mapping from label name to
  extension type and returns the first match, or null if no label matches or
  the labels are absent. The mapping is not given and is a parameter.
\<close>

fun first_match :: "(jsstring \<Rightarrow> ext_type option) \<Rightarrow> jsstring list \<Rightarrow> ext_type option" where
  "first_match m [] = None"
| "first_match m (l # ls) = (case m l of Some t \<Rightarrow> Some t | None \<Rightarrow> first_match m ls)"

definition checkLabel_spec ::
  "(jsstring \<Rightarrow> ext_type option) \<Rightarrow> jsstring list option \<Rightarrow> ext_type option" where
  "checkLabel_spec m ls = (case ls of None \<Rightarrow> None | Some xs \<Rightarrow> first_match m xs)"

text \<open>
  Modelled from the spec: \<^verbatim>\<open>extractIssueNumberFromRef\<close> of \<^verbatim>\<open>./utils\<close> is
  missing from the sources. The branch name is a fixed prefix followed by
  digits; the result is the integer the digits denote, and null when the
  name does not have that form or the number is not positive. The prefix is
  not given and is a parameter. An absent ref matches nothing.
\<close>

fun strip_prefix :: "jsstring \<Rightarrow> jsstring \<Rightarrow> jsstring option" where
  "strip_prefix [] s = Some s"
| "strip_prefix (p # ps) [] = None"
| "strip_prefix (p # ps) (c # cs) = (if p = c then strip_prefix ps cs else None)"

definition is_digit :: "16 word \<Rightarrow> bool" where
  "is_digit c = (0x30 \<le> c \<and> c \<le> 0x39)"

definition digit_value :: "16 word \<Rightarrow> int" where
  "digit_value c = uint c - 48"

definition digits_value :: "jsstring \<Rightarrow> int" where
  "digits_value ds = foldl (\<lambda>acc c. 10 * acc + digit_value c) 0 ds"

definition extractIssueNumberFromRef_spec :: "jsstring \<Rightarrow> jsstring option \<Rightarrow> int option" where
  "extractIssueNumberFromRef_spec pfx ref =
     (case ref of
        None \<Rightarrow> None
      | Some r \<Rightarrow>
          (case strip_prefix pfx r of
             None \<Rightarrow> None
           | Some ds \<Rightarrow>
               if ds \<noteq> [] \<and> list_all is_digit ds \<and> 0 < digits_value ds
               then Some (digits_value ds) else None))"

text \<open>
  Modelled from the spec: \<^verbatim>\<open>extractInfo\<close> of \<^verbatim>\<open>./utils\<close> is missing from the
  sources. It stamps the record's type with the supplied extension type and
  the author with the supplied login, and sets the name to the value marked
  in the body, or to the empty string when the body has none; it never
  fails. The template that marks the name is not given and is a parameter.
\<close>

definition extractInfo_spec ::
  "(ext_type \<Rightarrow> jsstring \<Rightarrow> jsstring option) \<Rightarrow> ext_type \<Rightarrow> jsstring \<Rightarrow> jsstring \<Rightarrow> info" where
  "extractInfo_spec template t b a =
     \<lparr>info_type = tag t, name = nullish (template t b) empty_string, author = a\<rparr>"

text \<open>
  Modelled from the spec: \<^verbatim>\<open>publishComment\<close> of \<^verbatim>\<open>./utils\<close> is missing from
  the sources. It makes one write call to the API that creates a comment on
  the issue, with no retry; a failure of the call is its own failure.
\<close>

definition publishComment_spec :: "octokit \<Rightarrow> int \<Rightarrow> jsstring \<Rightarrow> unit settled" where
  "publishComment_spec oct issue_number text = create_comment oct issue_number text"

text \<open>The four helpers of the contract together, with the three things the
  contract leaves open as parameters.\<close>

definition spec_utils ::
  "(jsstring \<Rightarrow> ext_type option) \<Rightarrow> jsstring \<Rightarrow> (ext_type \<Rightarrow> jsstring \<Rightarrow> jsstring option) \<Rightarrow> utils" where
  "spec_utils m pfx template =
     \<lparr>checkLabel = checkLabel_spec m,
      extractIssueNumberFromRef = extractIssueNumberFromRef_spec pfx,
      extractInfo = extractInfo_spec template,
      publishComment = publishComment_spec\<rparr>"

section \<open>The end-to-end scenarios\<close>

text \<open>
  The inputs of the scenarios: labels named after the types, branches
  \<^verbatim>\<open>issue-<n>\<close>, and a body that gives the name after \<^verbatim>\<open>name: \<close>.
\<close>

definition scenario_utils :: utils where
  "scenario_utils =
     spec_utils
       (map_of [(ascii ''Bot'', Bot), (ascii ''Adapter'', Adapter), (ascii ''Plugin'', Plugin)])
       (ascii ''issue-'')
       (\<lambda>t. strip_prefix (ascii ''name: ''))"

definition scenario_repo :: repo where
  "scenario_repo = \<lparr>owner = ascii ''nonebot'', repo_name = ascii ''nonebot2''\<rparr>"

definition scenario_context :: "string list \<Rightarrow> string \<Rightarrow> github_context" where
  "scenario_context ls ref =
     \<lparr>payload_pull_request = Some \<lparr>labels = Some (map ascii ls), head_ref = ascii ref\<rparr>,
      context_repo = scenario_repo\<rparr>"

text \<open>An API that knows one issue and answers a comment as given.\<close>

definition scenario_octokit :: "int \<Rightarrow> issue_data \<Rightarrow> unit settled \<Rightarrow> octokit" where
  "scenario_octokit k issue posted =
     \<lparr>issues_get = (\<lambda>r n. if n = k then Fulfilled issue else Rejected (RequestError 404)),
      create_comment = (\<lambda>n text. posted)\<rparr>"

definition scenario_issue :: "string \<Rightarrow> string \<Rightarrow> issue_data" where
  "scenario_issue b a =
     \<lparr>body = Some (ascii ''name: '' @ ascii b), user = Some \<lparr>login = Some (ascii a)\<rparr>\<rparr>"

section \<open>Facts about the literals and the dispatcher\<close>

lemmas literal_defs =
  ascii_def str_Bot_def str_Adapter_def str_Plugin_def msg_no_issue_def msg_skipped_def
  plugin_prefix_def plugin_ok_suffix_def bot_prefix_def adapter_prefix_def empty_string_def

lemmas scenario_defs =
  scenario_utils_def scenario_context_def scenario_octokit_def scenario_issue_def
  spec_utils_def checkLabel_spec_def extractIssueNumberFromRef_spec_def extractInfo_spec_def
  publishComment_spec_def is_digit_def digit_value_def digits_value_def
  pr_labels_def pr_ref_def nullish_def optional_chain_def

lemmas observation_defs = api_calls_def fetches_def comments_def failures_def invoked_def

lemma tags_distinct:
  "str_Bot \<noteq> str_Adapter" "str_Bot \<noteq> str_Plugin" "str_Adapter \<noteq> str_Plugin"
  "str_Adapter \<noteq> str_Bot" "str_Plugin \<noteq> str_Bot" "str_Plugin \<noteq> str_Adapter"
  by (simp_all add: literal_defs)

lemma check_skips:
  "checkLabel u (pr_labels ctx) = None \<Longrightarrow> check u ctx oct = skipped_run"
  by (simp add: check_def)

lemma check_fails_null:
  "checkLabel u (pr_labels ctx) = Some t \<Longrightarrow> extractIssueNumberFromRef u (pr_ref ctx) = None \<Longrightarrow>
   check u ctx oct = failed_run"
  by (simp add: check_def)

lemma check_fails_zero:
  "checkLabel u (pr_labels ctx) = Some t \<Longrightarrow> extractIssueNumberFromRef u (pr_ref ctx) = Some 0 \<Longrightarrow>
   check u ctx oct = failed_run"
  by (simp add: check_def)

lemma check_rejects:
  "checkLabel u (pr_labels ctx) = Some t \<Longrightarrow> extractIssueNumberFromRef u (pr_ref ctx) = Some n \<Longrightarrow>
   n \<noteq> 0 \<Longrightarrow> issues_get oct (context_repo ctx) n = Rejected e \<Longrightarrow>
   check u ctx oct =
     \<lparr>events = [IssuesGet (context_repo ctx) n], outcome = Rejected e, dropped = []\<rparr>"
  by (simp add: check_def)

lemma check_dispatches:
  "checkLabel u (pr_labels ctx) = Some t \<Longrightarrow> extractIssueNumberFromRef u (pr_ref ctx) = Some n \<Longrightarrow>
   n \<noteq> 0 \<Longrightarrow> issues_get oct (context_repo ctx) n = Fulfilled issue \<Longrightarrow>
   check u ctx oct = dispatch u oct [IssuesGet (context_repo ctx) n] (issue_info u t issue) n"
  by (simp add: check_def)

lemma dispatch_Bot:
  "info_type i = str_Bot \<Longrightarrow>
   dispatch u oct earlier i n =
     \<lparr>events = earlier @ [Info (bot_prefix @ name i)], outcome = Fulfilled (),
      dropped = [(CheckBot, \<lparr>pending = False, settles = Fulfilled ()\<rparr>)]\<rparr>"
  by (simp add: dispatch_def call_and_drop_def checkBot_def)

lemma dispatch_Adapter:
  "info_type i = str_Adapter \<Longrightarrow>
   dispatch u oct earlier i n =
     \<lparr>events = earlier @ [Info (adapter_prefix @ name i)], outcome = Fulfilled (),
      dropped = [(CheckAdapter, \<lparr>pending = False, settles = Fulfilled ()\<rparr>)]\<rparr>"
  by (simp add: dispatch_def call_and_drop_def checkAdapter_def tags_distinct)

lemma dispatch_Plugin:
  "info_type i = str_Plugin \<Longrightarrow>
   dispatch u oct earlier i n =
     \<lparr>events = earlier @ [Info (plugin_prefix @ name i),
                PublishComment n (plugin_prefix @ name i @ plugin_ok_suffix)],
      outcome = Fulfilled (),
      dropped = [(CheckPlugin,
        \<lparr>pending = True,
         settles = publishComment u oct n (plugin_prefix @ name i @ plugin_ok_suffix)\<rparr>)]\<rparr>"
  by (simp add: dispatch_def call_and_drop_def checkPlugin_def Let_def tags_distinct)

lemma dispatch_other:
  "info_type i \<noteq> str_Bot \<Longrightarrow> info_type i \<noteq> str_Adapter \<Longrightarrow> info_type i \<noteq> str_Plugin \<Longrightarrow>
   dispatch u oct earlier i n = \<lparr>events = earlier, outcome = Fulfilled (), dropped = []\<rparr>"
  by (simp add: dispatch_def)

text \<open>The four ways a run can go, by the results of the helpers and of the fetch.\<close>

lemma check_cases:
  obtains
    (skipped) "checkLabel u (pr_labels ctx) = None" "check u ctx oct = skipped_run"
  | (failed) t where "checkLabel u (pr_labels ctx) = Some t" "check u ctx oct = failed_run"
  | (rejected) t n e where "checkLabel u (pr_labels ctx) = Some t"
      "extractIssueNumberFromRef u (pr_ref ctx) = Some n" "n \<noteq> 0"
      "issues_get oct (context_repo ctx) n = Rejected e"
      "check u ctx oct =
         \<lparr>events = [IssuesGet (context_repo ctx) n], outcome = Rejected e, dropped = []\<rparr>"
  | (dispatched) t n issue where "checkLabel u (pr_labels ctx) = Some t"
      "extractIssueNumberFromRef u (pr_ref ctx) = Some n" "n \<noteq> 0"
      "issues_get oct (context_repo ctx) n = Fulfilled issue"
      "check u ctx oct = dispatch u oct [IssuesGet (context_repo ctx) n] (issue_info u t issue) n"
proof (cases "checkLabel u (pr_labels ctx)")
  case None
  then show ?thesis using skipped check_skips by blast
next
  case (Some t)
  note label = this
  show ?thesis
  proof (cases "extractIssueNumberFromRef u (pr_ref ctx)")
    case None
    then show ?thesis using failed label check_fails_null by blast
  next
    case (Some n)
    note number = this
    show ?thesis
    proof (cases "n = 0")
      case True
      then show ?thesis using failed label number check_fails_zero by blast
    next
      case False
      then show ?thesis
      proof (cases "issues_get oct (context_repo ctx) n")
        case (Fulfilled issue)
        then show ?thesis using dispatched label number False check_dispatches by blast
      next
        case (Rejected e)
        then show ?thesis using rejected label number False check_rejects by blast
      qed
    qed
  qed
qed


text \<open>The four ways the switch can go, by the type field of the record.\<close>

lemma dispatch_cases:
  obtains
    (bot) "info_type i = str_Bot"
      "dispatch u oct earlier i n =
         \<lparr>events = earlier @ [Info (bot_prefix @ name i)], outcome = Fulfilled (),
          dropped = [(CheckBot, \<lparr>pending = False, settles = Fulfilled ()\<rparr>)]\<rparr>"
  | (adapter) "info_type i = str_Adapter"
      "dispatch u oct earlier i n =
         \<lparr>events = earlier @ [Info (adapter_prefix @ name i)], outcome = Fulfilled (),
          dropped = [(CheckAdapter, \<lparr>pending = False, settles = Fulfilled ()\<rparr>)]\<rparr>"
  | (plugin) "info_type i = str_Plugin"
      "dispatch u oct earlier i n =
         \<lparr>events = earlier @ [Info (plugin_prefix @ name i),
                    PublishComment n (plugin_prefix @ name i @ plugin_ok_suffix)],
          outcome = Fulfilled (),
          dropped = [(CheckPlugin,
            \<lparr>pending = True,
             settles = publishComment u oct n (plugin_prefix @ name i @ plugin_ok_suffix)\<rparr>)]\<rparr>"
  | (other) "info_type i \<noteq> str_Bot" "info_type i \<noteq> str_Adapter" "info_type i \<noteq> str_Plugin"
      "dispatch u oct earlier i n = \<lparr>events = earlier, outcome = Fulfilled (), dropped = []\<rparr>"
  using dispatch_Bot dispatch_Adapter dispatch_Plugin dispatch_other by blast

lemma dispatch_fetched:
  assumes "IssuesGet r k \<in> set (events (dispatch u oct earlier i n))"
  shows "IssuesGet r k \<in> set earlier"
  by (rule dispatch_cases [where i = i and u = u and oct = oct and earlier = earlier and n = n])
    (use assms in auto)

section \<open>Pull requests that are not registrations\<close>

text \<open>
  C3. When the label classifier returns null on the labels of the pull
  request, \<^verbatim>\<open>check\<close> completes with the informational message alone: its
  promise is fulfilled, it makes no call to the API (no fetch and no
  comment), signals no failure and calls no validator.
\<close>

theorem check_unlabelled_is_noop:
  assumes "checkLabel u (pr_labels ctx) = None"
  shows "check u ctx oct = \<lparr>events = [Info msg_skipped], outcome = Fulfilled (), dropped = []\<rparr>
    \<and> api_calls (check u ctx oct) = []
    \<and> failures (check u ctx oct) = []
    \<and> invoked (check u ctx oct) = []"
  using check_skips [OF assms, of oct] by (simp add: skipped_run_def observation_defs)

theorem check_unlabelled_is_noop_witness:
  "checkLabel scenario_utils (pr_labels (scenario_context [] ''issue-7'')) = None
   \<and> check scenario_utils (scenario_context [] ''issue-7'')
        (scenario_octokit 7 (scenario_issue ''weatherbot'' ''bob'') (Fulfilled ()))
      = \<lparr>events = [Info msg_skipped], outcome = Fulfilled (), dropped = []\<rparr>
   \<and> checkLabel scenario_utils
        (pr_labels \<lparr>payload_pull_request = None, context_repo = scenario_repo\<rparr>) = None
   \<and> api_calls (check scenario_utils \<lparr>payload_pull_request = None, context_repo = scenario_repo\<rparr>
        (scenario_octokit 7 (scenario_issue ''weatherbot'' ''bob'') (Fulfilled ()))) = []"
proof -
  have empty: "checkLabel scenario_utils (pr_labels (scenario_context [] ''issue-7'')) = None"
    by (simp add: scenario_defs)
  have absent: "checkLabel scenario_utils
      (pr_labels \<lparr>payload_pull_request = None, context_repo = scenario_repo\<rparr>) = None"
    by (simp add: scenario_defs)
  show ?thesis
    using empty absent check_unlabelled_is_noop [OF empty] check_unlabelled_is_noop [OF absent]
    by (simp add: api_calls_def)
qed

section \<open>Branches that name no issue\<close>

text \<open>
  C2. When the label classifier returns a type and the branch parser
  returns null on the head ref, \<^verbatim>\<open>check\<close> signals the failure "cannot get
  the issue" and stops: no fetch, no comment, no validator, and the run does
  not depend on the extractor or on the API handle.
\<close>

theorem check_unparsed_ref_fails:
  assumes "checkLabel u (pr_labels ctx) = Some t"
    and "extractIssueNumberFromRef u (pr_ref ctx) = None"
  shows "check u ctx oct = \<lparr>events = [SetFailed msg_no_issue], outcome = Fulfilled (), dropped = []\<rparr>
    \<and> failures (check u ctx oct) = [SetFailed msg_no_issue]
    \<and> api_calls (check u ctx oct) = []
    \<and> invoked (check u ctx oct) = []
    \<and> (\<forall>f oct'. check (u\<lparr>extractInfo := f\<rparr>) ctx oct' = check u ctx oct)"
proof -
  have "check u ctx oct = failed_run"
    using assms by (rule check_fails_null)
  moreover have "check (u\<lparr>extractInfo := f\<rparr>) ctx oct' = failed_run" for f oct'
    using assms by (intro check_fails_null [where t = t]) simp_all
  ultimately show ?thesis
    by (simp add: failed_run_def observation_defs)
qed

theorem check_unparsed_ref_fails_witness:
  "checkLabel scenario_utils (pr_labels (scenario_context [''Adapter''] ''not-an-issue-branch''))
     = Some Adapter
   \<and> extractIssueNumberFromRef scenario_utils
        (pr_ref (scenario_context [''Adapter''] ''not-an-issue-branch'')) = None
   \<and> check scenario_utils (scenario_context [''Adapter''] ''not-an-issue-branch'')
        (scenario_octokit 7 (scenario_issue ''weatherbot'' ''bob'') (Fulfilled ()))
      = \<lparr>events = [SetFailed msg_no_issue], outcome = Fulfilled (), dropped = []\<rparr>
   \<and> fetches (check scenario_utils (scenario_context [''Adapter''] ''not-an-issue-branch'')
        (scenario_octokit 7 (scenario_issue ''weatherbot'' ''bob'') (Fulfilled ()))) = []"
proof -
  have label: "checkLabel scenario_utils
      (pr_labels (scenario_context [''Adapter''] ''not-an-issue-branch'')) = Some Adapter"
    by (simp add: scenario_defs literal_defs)
  have number: "extractIssueNumberFromRef scenario_utils
      (pr_ref (scenario_context [''Adapter''] ''not-an-issue-branch'')) = None"
    by (simp add: scenario_defs literal_defs)
  show ?thesis
    using label number check_unparsed_ref_fails [OF label number]
    by (simp add: fetches_def)
qed


text \<open>
  C9. The guard of line 20 tests falsiness: if the branch parser returned 0,
  the run is the one for null (the failure is signalled and nothing is
  fetched), and every fetch a run makes is for the parsed issue number,
  which is not 0.
\<close>

theorem zero_issue_number_fails_like_null:
  "(checkLabel u (pr_labels ctx) = Some t \<longrightarrow>
    extractIssueNumberFromRef u (pr_ref ctx) = Some 0 \<longrightarrow>
      check u ctx oct
        = \<lparr>events = [SetFailed msg_no_issue], outcome = Fulfilled (), dropped = []\<rparr>
      \<and> check u ctx oct = check (u\<lparr>extractIssueNumberFromRef := (\<lambda>r. None)\<rparr>) ctx oct
      \<and> fetches (check u ctx oct) = [])
   \<and> (\<forall>r n. IssuesGet r n \<in> set (events (check u ctx oct)) \<longrightarrow>
          n \<noteq> 0 \<and> extractIssueNumberFromRef u (pr_ref ctx) = Some n)"
proof (intro conjI impI allI)
  assume label: "checkLabel u (pr_labels ctx) = Some t"
    and zero: "extractIssueNumberFromRef u (pr_ref ctx) = Some 0"
  have run: "check u ctx oct = failed_run"
    using label zero by (rule check_fails_zero)
  show "check u ctx oct
      = \<lparr>events = [SetFailed msg_no_issue], outcome = Fulfilled (), dropped = []\<rparr>"
    using run by (simp add: failed_run_def)
  have "check (u\<lparr>extractIssueNumberFromRef := (\<lambda>r. None)\<rparr>) ctx oct = failed_run"
    using label by (intro check_fails_null [where t = t]) simp_all
  then show "check u ctx oct = check (u\<lparr>extractIssueNumberFromRef := (\<lambda>r. None)\<rparr>) ctx oct"
    using run by simp
  show "fetches (check u ctx oct) = []"
    using run by (simp add: failed_run_def fetches_def)
next
  fix r n
  assume fetch: "IssuesGet r n \<in> set (events (check u ctx oct))"
  have "n \<noteq> 0 \<and> extractIssueNumberFromRef u (pr_ref ctx) = Some n"
  proof (cases u ctx oct rule: check_cases)
    case skipped
    then show ?thesis using fetch by (simp add: skipped_run_def)
  next
    case (failed t)
    then show ?thesis using fetch by (simp add: failed_run_def)
  next
    case (rejected t k e)
    then show ?thesis using fetch by simp
  next
    case (dispatched t k issue)
    then have "IssuesGet r n \<in> set (events
        (dispatch u oct [IssuesGet (context_repo ctx) k] (issue_info u t issue) k))"
      using fetch by simp
    then have "IssuesGet r n \<in> set [IssuesGet (context_repo ctx) k]"
      by (rule dispatch_fetched)
    then show ?thesis using dispatched by simp
  qed
  then show "n \<noteq> 0" and "extractIssueNumberFromRef u (pr_ref ctx) = Some n"
    by simp_all
qed

theorem zero_issue_number_fails_like_null_witness:
  "check (scenario_utils\<lparr>extractIssueNumberFromRef := (\<lambda>r. Some 0)\<rparr>)
      (scenario_context [''Plugin''] ''issue-0'')
      (scenario_octokit 0 (scenario_issue ''echo-plugin'' ''alice'') (Fulfilled ()))
     = \<lparr>events = [SetFailed msg_no_issue], outcome = Fulfilled (), dropped = []\<rparr>
   \<and> IssuesGet scenario_repo 42 \<in> set (events
        (check scenario_utils (scenario_context [''Plugin''] ''issue-42'')
          (scenario_octokit 42 (scenario_issue ''echo-plugin'' ''alice'') (Fulfilled ()))))
   \<and> extractIssueNumberFromRef scenario_utils
        (pr_ref (scenario_context [''Plugin''] ''issue-42'')) = Some 42"
proof -
  let ?u = "scenario_utils\<lparr>extractIssueNumberFromRef := (\<lambda>r. Some 0)\<rparr>"
  let ?ctx = "scenario_context [''Plugin''] ''issue-0''"
  have label: "checkLabel ?u (pr_labels ?ctx) = Some Plugin"
    by (simp add: scenario_defs literal_defs)
  have zero: "extractIssueNumberFromRef ?u (pr_ref ?ctx) = Some 0"
    by simp
  have fetched: "IssuesGet scenario_repo 42 \<in> set (events
      (check scenario_utils (scenario_context [''Plugin''] ''issue-42'')
        (scenario_octokit 42 (scenario_issue ''echo-plugin'' ''alice'') (Fulfilled ()))))"
    by (simp add: check_def dispatch_def call_and_drop_def checkPlugin_def issue_info_def
        scenario_defs literal_defs)
  show ?thesis
    using label zero fetched
      zero_issue_number_fails_like_null [of ?u ?ctx Plugin
        "scenario_octokit 0 (scenario_issue ''echo-plugin'' ''alice'') (Fulfilled ())"]
      zero_issue_number_fails_like_null [of scenario_utils
        "scenario_context [''Plugin''] ''issue-42''" Plugin
        "scenario_octokit 42 (scenario_issue ''echo-plugin'' ''alice'') (Fulfilled ())"]
    by blast
qed


section \<open>Fetch and dispatch\<close>

text \<open>
  C1, amended. When the label classifier returns a type and the branch
  parser returns an issue number that is not 0, \<^verbatim>\<open>check\<close> makes exactly one
  fetch, of that issue, before anything else. If the fetch fails, the run is
  that fetch alone: the promise of \<^verbatim>\<open>check\<close> is rejected with its error and
  no validator is called. If it succeeds and the type field of the built
  record is \<^verbatim>\<open>Bot\<close>, \<^verbatim>\<open>Adapter\<close> or \<^verbatim>\<open>Plugin\<close>, the run is the fetch followed
  by the call of \<^verbatim>\<open>checkBot\<close>, \<^verbatim>\<open>checkAdapter\<close> or \<^verbatim>\<open>checkPlugin\<close> on that
  record and nothing else: the effects after the fetch are those of the
  validator's body (its log line, and for the plugin its comment), and the
  one promise dropped is the one that validator returned.
\<close>

theorem check_fetches_once_then_dispatches:
  assumes "checkLabel u (pr_labels ctx) = Some t"
    and "extractIssueNumberFromRef u (pr_ref ctx) = Some n"
    and "n \<noteq> 0"
  shows "fetches (check u ctx oct) = [IssuesGet (context_repo ctx) n]
    \<and> (\<exists>rest. events (check u ctx oct) = IssuesGet (context_repo ctx) n # rest)
    \<and> (\<forall>e. issues_get oct (context_repo ctx) n = Rejected e \<longrightarrow>
          check u ctx oct
            = \<lparr>events = [IssuesGet (context_repo ctx) n], outcome = Rejected e, dropped = []\<rparr>
        \<and> invoked (check u ctx oct) = [])
    \<and> (\<forall>issue. issues_get oct (context_repo ctx) n = Fulfilled issue \<longrightarrow>
          (info_type (issue_info u t issue) = str_Bot \<longrightarrow>
             check u ctx oct
               = \<lparr>events = IssuesGet (context_repo ctx) n
                    # call_events (checkBot oct (issue_info u t issue)),
                  outcome = Fulfilled (),
                  dropped = [(CheckBot, call_promise (checkBot oct (issue_info u t issue)))]\<rparr>
           \<and> checkBot oct (issue_info u t issue)
               = \<lparr>call_events = [Info (bot_prefix @ name (issue_info u t issue))],
                  call_promise = \<lparr>pending = False, settles = Fulfilled ()\<rparr>\<rparr>
           \<and> invoked (check u ctx oct) = [CheckBot])
        \<and> (info_type (issue_info u t issue) = str_Adapter \<longrightarrow>
             check u ctx oct
               = \<lparr>events = IssuesGet (context_repo ctx) n
                    # call_events (checkAdapter oct (issue_info u t issue)),
                  outcome = Fulfilled (),
                  dropped =
                    [(CheckAdapter, call_promise (checkAdapter oct (issue_info u t issue)))]\<rparr>
           \<and> checkAdapter oct (issue_info u t issue)
               = \<lparr>call_events = [Info (adapter_prefix @ name (issue_info u t issue))],
                  call_promise = \<lparr>pending = False, settles = Fulfilled ()\<rparr>\<rparr>
           \<and> invoked (check u ctx oct) = [CheckAdapter])
        \<and> (info_type (issue_info u t issue) = str_Plugin \<longrightarrow>
             check u ctx oct
               = \<lparr>events = IssuesGet (context_repo ctx) n
                    # call_events (checkPlugin u oct (issue_info u t issue) n),
                  outcome = Fulfilled (),
                  dropped =
                    [(CheckPlugin, call_promise (checkPlugin u oct (issue_info u t issue) n))]\<rparr>
           \<and> checkPlugin u oct (issue_info u t issue) n
               = \<lparr>call_events =
                    [Info (plugin_prefix @ name (issue_info u t issue)),
                     PublishComment n
                       (plugin_prefix @ name (issue_info u t issue) @ plugin_ok_suffix)],
                  call_promise =
                    \<lparr>pending = True,
                     settles = publishComment u oct n
                       (plugin_prefix @ name (issue_info u t issue) @ plugin_ok_suffix)\<rparr>\<rparr>
           \<and> invoked (check u ctx oct) = [CheckPlugin]))"
proof (cases "issues_get oct (context_repo ctx) n")
  case (Rejected e)
  then have "check u ctx oct
      = \<lparr>events = [IssuesGet (context_repo ctx) n], outcome = Rejected e, dropped = []\<rparr>"
    using assms by (intro check_rejects)
  then show ?thesis
    using Rejected by (simp add: observation_defs)
next
  case (Fulfilled issue)
  let ?first = "[IssuesGet (context_repo ctx) n]"
  let ?i = "issue_info u t issue"
  have run: "check u ctx oct = dispatch u oct ?first ?i n"
    using assms Fulfilled by (intro check_dispatches)
  have bodies:
    "checkBot oct ?i
       = \<lparr>call_events = [Info (bot_prefix @ name ?i)],
          call_promise = \<lparr>pending = False, settles = Fulfilled ()\<rparr>\<rparr>"
    "checkAdapter oct ?i
       = \<lparr>call_events = [Info (adapter_prefix @ name ?i)],
          call_promise = \<lparr>pending = False, settles = Fulfilled ()\<rparr>\<rparr>"
    "checkPlugin u oct ?i n
       = \<lparr>call_events =
            [Info (plugin_prefix @ name ?i),
             PublishComment n (plugin_prefix @ name ?i @ plugin_ok_suffix)],
          call_promise =
            \<lparr>pending = True,
             settles = publishComment u oct n (plugin_prefix @ name ?i @ plugin_ok_suffix)\<rparr>\<rparr>"
    by (simp_all add: checkBot_def checkAdapter_def checkPlugin_def Let_def)
  show ?thesis
    by (rule dispatch_cases [where i = ?i and u = u and oct = oct
          and earlier = ?first and n = n])
      (use run Fulfilled tags_distinct bodies in \<open>simp_all add: observation_defs\<close>)
qed

theorem check_fetches_once_then_dispatches_witness:
  "check scenario_utils (scenario_context [''Plugin''] ''issue-42'')
      (scenario_octokit 42 (scenario_issue ''echo-plugin'' ''alice'') (Fulfilled ()))
     = \<lparr>events =
          [IssuesGet scenario_repo 42, Info (plugin_prefix @ ascii ''echo-plugin''),
           PublishComment 42 (plugin_prefix @ ascii ''echo-plugin'' @ plugin_ok_suffix)],
        outcome = Fulfilled (),
        dropped = [(CheckPlugin, \<lparr>pending = True, settles = Fulfilled ()\<rparr>)]\<rparr>
   \<and> check scenario_utils (scenario_context [''Bot''] ''issue-7'')
      (scenario_octokit 7 (scenario_issue ''weatherbot'' ''bob'') (Fulfilled ()))
     = \<lparr>events = [IssuesGet scenario_repo 7, Info (bot_prefix @ ascii ''weatherbot'')],
        outcome = Fulfilled (),
        dropped = [(CheckBot, \<lparr>pending = False, settles = Fulfilled ()\<rparr>)]\<rparr>
   \<and> check scenario_utils (scenario_context [''Plugin''] ''issue-42'')
      (scenario_octokit 41 (scenario_issue ''echo-plugin'' ''alice'') (Fulfilled ()))
     = \<lparr>events = [IssuesGet scenario_repo 42], outcome = Rejected (RequestError 404),
        dropped = []\<rparr>"
proof -
  let ?ctx = "scenario_context [''Plugin''] ''issue-42''"
  let ?issue = "scenario_issue ''echo-plugin'' ''alice''"
  let ?oct = "scenario_octokit 42 ?issue (Fulfilled ())"
  let ?down = "scenario_octokit 41 ?issue (Fulfilled ())"
  let ?ctx' = "scenario_context [''Bot''] ''issue-7''"
  let ?issue' = "scenario_issue ''weatherbot'' ''bob''"
  let ?oct' = "scenario_octokit 7 ?issue' (Fulfilled ())"
  have label: "checkLabel scenario_utils (pr_labels ?ctx) = Some Plugin"
      "checkLabel scenario_utils (pr_labels ?ctx') = Some Bot"
    by (simp_all add: scenario_defs literal_defs)
  have number: "extractIssueNumberFromRef scenario_utils (pr_ref ?ctx) = Some 42"
      "extractIssueNumberFromRef scenario_utils (pr_ref ?ctx') = Some 7"
    by (simp_all add: scenario_defs literal_defs)
  have nonzero: "(42::int) \<noteq> 0" "(7::int) \<noteq> 0"
    by simp_all
  have fetch: "issues_get ?oct (context_repo ?ctx) 42 = Fulfilled ?issue"
      "issues_get ?oct' (context_repo ?ctx') 7 = Fulfilled ?issue'"
      "issues_get ?down (context_repo ?ctx) 42 = Rejected (RequestError 404)"
    by (simp_all add: scenario_octokit_def)
  have type: "info_type (issue_info scenario_utils Plugin ?issue) = str_Plugin"
      "info_type (issue_info scenario_utils Bot ?issue') = str_Bot"
    by (simp_all add: issue_info_def scenario_defs)
  have named: "name (issue_info scenario_utils Plugin ?issue) = ascii ''echo-plugin''"
      "name (issue_info scenario_utils Bot ?issue') = ascii ''weatherbot''"
    by (simp_all add: issue_info_def scenario_defs literal_defs)
  have posted: "publishComment scenario_utils ?oct 42 msg = Fulfilled ()" for msg
    by (simp add: scenario_defs)
  have repo: "context_repo ?ctx = scenario_repo" "context_repo ?ctx' = scenario_repo"
    by (simp_all add: scenario_context_def)
  have plugin: "check scenario_utils ?ctx ?oct
     = \<lparr>events =
          [IssuesGet scenario_repo 42, Info (plugin_prefix @ ascii ''echo-plugin''),
           PublishComment 42 (plugin_prefix @ ascii ''echo-plugin'' @ plugin_ok_suffix)],
        outcome = Fulfilled (),
        dropped = [(CheckPlugin, \<lparr>pending = True, settles = Fulfilled ()\<rparr>)]\<rparr>"
    using check_fetches_once_then_dispatches [OF label(1) number(1) nonzero(1), of ?oct]
      fetch(1) type(1) named(1) posted repo(1)
    by simp
  have bot: "check scenario_utils ?ctx' ?oct'
     = \<lparr>events = [IssuesGet scenario_repo 7, Info (bot_prefix @ ascii ''weatherbot'')],
        outcome = Fulfilled (),
        dropped = [(CheckBot, \<lparr>pending = False, settles = Fulfilled ()\<rparr>)]\<rparr>"
    using check_fetches_once_then_dispatches [OF label(2) number(2) nonzero(2), of ?oct']
      fetch(2) type(2) named(2) repo(2)
    by simp
  have down: "check scenario_utils ?ctx ?down
     = \<lparr>events = [IssuesGet scenario_repo 42], outcome = Rejected (RequestError 404),
        dropped = []\<rparr>"
    using check_fetches_once_then_dispatches [OF label(1) number(1) nonzero(1), of ?down]
      fetch(3) repo(1)
    by simp
  show ?thesis
    using plugin bot down by simp
qed

text \<open>
  The claim as it stands fails where the fetch fails: label and issue number
  are there, one fetch is made, and no validator is called.
\<close>

theorem check_failed_fetch_calls_no_validator:
  "checkLabel scenario_utils (pr_labels (scenario_context [''Plugin''] ''issue-42''))
     = Some Plugin
   \<and> extractIssueNumberFromRef scenario_utils
        (pr_ref (scenario_context [''Plugin''] ''issue-42'')) = Some 42
   \<and> fetches (check scenario_utils (scenario_context [''Plugin''] ''issue-42'')
        (scenario_octokit 41 (scenario_issue ''echo-plugin'' ''alice'') (Fulfilled ())))
     = [IssuesGet scenario_repo 42]
   \<and> invoked (check scenario_utils (scenario_context [''Plugin''] ''issue-42'')
        (scenario_octokit 41 (scenario_issue ''echo-plugin'' ''alice'') (Fulfilled ()))) = []
   \<and> events (check scenario_utils (scenario_context [''Plugin''] ''issue-42'')
        (scenario_octokit 41 (scenario_issue ''echo-plugin'' ''alice'') (Fulfilled ())))
     = [IssuesGet scenario_repo 42]
   \<and> outcome (check scenario_utils (scenario_context [''Plugin''] ''issue-42'')
        (scenario_octokit 41 (scenario_issue ''echo-plugin'' ''alice'') (Fulfilled ())))
     = Rejected (RequestError 404)"
  by (simp add: check_def scenario_defs literal_defs observation_defs)

section \<open>The plugin's comment\<close>

text \<open>
  C4. When the record dispatched has the type \<^verbatim>\<open>Plugin\<close>, the run calls the
  plugin validator and no other, and calls the comment publisher exactly
  once: on the issue number parsed from the branch, which is the issue
  fetched, and with a text that holds the record's name between the two
  fixed parts of the template.
\<close>

theorem plugin_posts_one_comment_with_name:
  assumes "checkLabel u (pr_labels ctx) = Some t"
    and "extractIssueNumberFromRef u (pr_ref ctx) = Some n"
    and "n \<noteq> 0"
    and "issues_get oct (context_repo ctx) n = Fulfilled issue"
    and "info_type (issue_info u t issue) = str_Plugin"
  shows "comments (check u ctx oct)
      = [PublishComment n (plugin_prefix @ name (issue_info u t issue) @ plugin_ok_suffix)]
    \<and> fetches (check u ctx oct) = [IssuesGet (context_repo ctx) n]
    \<and> invoked (check u ctx oct) = [CheckPlugin]"
proof -
  have "check u ctx oct
      = dispatch u oct [IssuesGet (context_repo ctx) n] (issue_info u t issue) n"
    using assms(1-4) by (rule check_dispatches)
  then show ?thesis
    using dispatch_Plugin [OF assms(5)] by (simp add: observation_defs)
qed

theorem plugin_posts_one_comment_with_name_witness:
  "name (issue_info scenario_utils Plugin (scenario_issue ''echo-plugin'' ''alice''))
     = ascii ''echo-plugin''
   \<and> comments (check scenario_utils (scenario_context [''Plugin''] ''issue-42'')
      (scenario_octokit 42 (scenario_issue ''echo-plugin'' ''alice'') (Fulfilled ())))
     = [PublishComment 42 (plugin_prefix @ ascii ''echo-plugin'' @ plugin_ok_suffix)]
   \<and> fetches (check scenario_utils (scenario_context [''Plugin''] ''issue-42'')
      (scenario_octokit 42 (scenario_issue ''echo-plugin'' ''alice'') (Fulfilled ())))
     = [IssuesGet scenario_repo 42]"
proof -
  let ?ctx = "scenario_context [''Plugin''] ''issue-42''"
  let ?issue = "scenario_issue ''echo-plugin'' ''alice''"
  let ?oct = "scenario_octokit 42 ?issue (Fulfilled ())"
  have label: "checkLabel scenario_utils (pr_labels ?ctx) = Some Plugin"
    by (simp add: scenario_defs literal_defs)
  have number: "extractIssueNumberFromRef scenario_utils (pr_ref ?ctx) = Some 42"
    by (simp add: scenario_defs literal_defs)
  have nonzero: "(42::int) \<noteq> 0"
    by simp
  have fetch: "issues_get ?oct (context_repo ?ctx) 42 = Fulfilled ?issue"
    by (simp add: scenario_octokit_def)
  have type: "info_type (issue_info scenario_utils Plugin ?issue) = str_Plugin"
    by (simp add: issue_info_def scenario_defs)
  have named: "name (issue_info scenario_utils Plugin ?issue) = ascii ''echo-plugin''"
    by (simp add: issue_info_def scenario_defs literal_defs)
  have repo: "context_repo ?ctx = scenario_repo"
    by (simp add: scenario_context_def)
  show ?thesis
    using plugin_posts_one_comment_with_name [OF label number nonzero fetch type] named repo
    by simp
qed


section \<open>Writes to the API\<close>



section \<open>The switch\<close>

text \<open>
  C10. Once the issue is fetched, what runs is decided by the type field of
  the record \<^verbatim>\<open>extractInfo\<close> returned, whatever type the labels gave. If the
  field is \<^verbatim>\<open>Bot\<close>, \<^verbatim>\<open>Adapter\<close> or \<^verbatim>\<open>Plugin\<close>, exactly one validator runs,
  the one of that name: after the fetch the run has the log line of that
  validator (and, for the plugin, its one comment on the issue) and nothing
  of the other two, and one promise is dropped. If the field is anything
  else, the run is the fetch alone: no validator runs, nothing is logged, no
  comment is posted, no failure is signalled and the promise of \<^verbatim>\<open>check\<close>
  is fulfilled.
\<close>

theorem switch_keys_on_record_type:
  assumes "checkLabel u (pr_labels ctx) = Some t"
    and "extractIssueNumberFromRef u (pr_ref ctx) = Some n"
    and "n \<noteq> 0"
    and "issues_get oct (context_repo ctx) n = Fulfilled issue"
  shows "(info_type (issue_info u t issue) = str_Bot \<longrightarrow>
          check u ctx oct
            = \<lparr>events = [IssuesGet (context_repo ctx) n,
                         Info (bot_prefix @ name (issue_info u t issue))],
               outcome = Fulfilled (),
               dropped = [(CheckBot, \<lparr>pending = False, settles = Fulfilled ()\<rparr>)]\<rparr>)
    \<and> (info_type (issue_info u t issue) = str_Adapter \<longrightarrow>
          check u ctx oct
            = \<lparr>events = [IssuesGet (context_repo ctx) n,
                         Info (adapter_prefix @ name (issue_info u t issue))],
               outcome = Fulfilled (),
               dropped = [(CheckAdapter, \<lparr>pending = False, settles = Fulfilled ()\<rparr>)]\<rparr>)
    \<and> (info_type (issue_info u t issue) = str_Plugin \<longrightarrow>
          check u ctx oct
            = \<lparr>events = [IssuesGet (context_repo ctx) n,
                         Info (plugin_prefix @ name (issue_info u t issue)),
                         PublishComment n
                           (plugin_prefix @ name (issue_info u t issue) @ plugin_ok_suffix)],
               outcome = Fulfilled (),
               dropped = [(CheckPlugin,
                 \<lparr>pending = True,
                  settles = publishComment u oct n
                    (plugin_prefix @ name (issue_info u t issue) @ plugin_ok_suffix)\<rparr>)]\<rparr>)
    \<and> invoked (check u ctx oct)
      = (if info_type (issue_info u t issue) = str_Bot then [CheckBot]
         else if info_type (issue_info u t issue) = str_Adapter then [CheckAdapter]
         else if info_type (issue_info u t issue) = str_Plugin then [CheckPlugin]
         else [])
    \<and> (info_type (issue_info u t issue) \<in> {str_Bot, str_Adapter, str_Plugin} \<longrightarrow>
          length (invoked (check u ctx oct)) = 1
        \<and> length (filter (\<lambda>e. \<not> is_fetch e \<and> \<not> is_comment e) (events (check u ctx oct))) = 1)
    \<and> (info_type (issue_info u t issue) \<notin> {str_Bot, str_Adapter, str_Plugin} \<longrightarrow>
          check u ctx oct
            = \<lparr>events = [IssuesGet (context_repo ctx) n], outcome = Fulfilled (),
               dropped = []\<rparr>
        \<and> invoked (check u ctx oct) = []
        \<and> comments (check u ctx oct) = []
        \<and> failures (check u ctx oct) = []
        \<and> outcome (check u ctx oct) = Fulfilled ())"
proof -
  have run: "check u ctx oct
      = dispatch u oct [IssuesGet (context_repo ctx) n] (issue_info u t issue) n"
    using assms by (rule check_dispatches)
  show ?thesis
    by (rule dispatch_cases [where i = "issue_info u t issue" and u = u and oct = oct
          and earlier = "[IssuesGet (context_repo ctx) n]" and n = n])
      (use run tags_distinct in \<open>simp_all add: observation_defs\<close>)
qed

theorem switch_keys_on_record_type_witness:
  "check
      (scenario_utils\<lparr>extractInfo :=
         (\<lambda>t b a. \<lparr>info_type = ascii ''Plugin'', name = b, author = a\<rparr>)\<rparr>)
      (scenario_context [''Bot''] ''issue-7'')
      (scenario_octokit 7 (scenario_issue ''weatherbot'' ''bob'') (Fulfilled ()))
     = \<lparr>events =
          [IssuesGet scenario_repo 7, Info (plugin_prefix @ ascii ''name: weatherbot''),
           PublishComment 7 (plugin_prefix @ ascii ''name: weatherbot'' @ plugin_ok_suffix)],
        outcome = Fulfilled (),
        dropped = [(CheckPlugin, \<lparr>pending = True, settles = Fulfilled ()\<rparr>)]\<rparr>
   \<and> check
      (scenario_utils\<lparr>extractInfo :=
         (\<lambda>t b a. \<lparr>info_type = ascii ''Theme'', name = b, author = a\<rparr>)\<rparr>)
      (scenario_context [''Bot''] ''issue-7'')
      (scenario_octokit 7 (scenario_issue ''weatherbot'' ''bob'') (Fulfilled ()))
     = \<lparr>events = [IssuesGet scenario_repo 7], outcome = Fulfilled (), dropped = []\<rparr>
   \<and> check scenario_utils (scenario_context [''Bot''] ''issue-7'')
      (scenario_octokit 7 (scenario_issue ''weatherbot'' ''bob'') (Fulfilled ()))
     = \<lparr>events = [IssuesGet scenario_repo 7, Info (bot_prefix @ ascii ''weatherbot'')],
        outcome = Fulfilled (),
        dropped = [(CheckBot, \<lparr>pending = False, settles = Fulfilled ()\<rparr>)]\<rparr>"
proof -
  let ?plugin = "scenario_utils\<lparr>extractInfo :=
      (\<lambda>t b a. \<lparr>info_type = ascii ''Plugin'', name = b, author = a\<rparr>)\<rparr>"
  let ?theme = "scenario_utils\<lparr>extractInfo :=
      (\<lambda>t b a. \<lparr>info_type = ascii ''Theme'', name = b, author = a\<rparr>)\<rparr>"
  let ?ctx = "scenario_context [''Bot''] ''issue-7''"
  let ?issue = "scenario_issue ''weatherbot'' ''bob''"
  let ?oct = "scenario_octokit 7 ?issue (Fulfilled ())"
  have label: "checkLabel ?plugin (pr_labels ?ctx) = Some Bot"
      "checkLabel ?theme (pr_labels ?ctx) = Some Bot"
      "checkLabel scenario_utils (pr_labels ?ctx) = Some Bot"
    by (simp_all add: scenario_defs literal_defs)
  have number: "extractIssueNumberFromRef ?plugin (pr_ref ?ctx) = Some 7"
      "extractIssueNumberFromRef ?theme (pr_ref ?ctx) = Some 7"
      "extractIssueNumberFromRef scenario_utils (pr_ref ?ctx) = Some 7"
    by (simp_all add: scenario_defs literal_defs)
  have nonzero: "(7::int) \<noteq> 0"
    by simp
  have fetch: "issues_get ?oct (context_repo ?ctx) 7 = Fulfilled ?issue"
    by (simp add: scenario_octokit_def)
  have type: "info_type (issue_info ?plugin Bot ?issue) = str_Plugin"
      "info_type (issue_info ?theme Bot ?issue) \<notin> {str_Bot, str_Adapter, str_Plugin}"
      "info_type (issue_info scenario_utils Bot ?issue) = str_Bot"
    by (simp_all add: issue_info_def scenario_defs literal_defs)
  have named: "name (issue_info ?plugin Bot ?issue) = ascii ''name: weatherbot''"
      "name (issue_info scenario_utils Bot ?issue) = ascii ''weatherbot''"
    by (simp_all add: issue_info_def scenario_defs literal_defs)
  have posted: "publishComment ?plugin ?oct 7 msg = Fulfilled ()" for msg
    by (simp add: scenario_defs)
  have repo: "context_repo ?ctx = scenario_repo"
    by (simp add: scenario_context_def)
  have first: "check ?plugin ?ctx ?oct
     = \<lparr>events =
          [IssuesGet scenario_repo 7, Info (plugin_prefix @ ascii ''name: weatherbot''),
           PublishComment 7 (plugin_prefix @ ascii ''name: weatherbot'' @ plugin_ok_suffix)],
        outcome = Fulfilled (),
        dropped = [(CheckPlugin, \<lparr>pending = True, settles = Fulfilled ()\<rparr>)]\<rparr>"
    using switch_keys_on_record_type [OF label(1) number(1) nonzero fetch]
      type(1) named(1) posted repo
    by simp
  have second: "check ?theme ?ctx ?oct
     = \<lparr>events = [IssuesGet scenario_repo 7], outcome = Fulfilled (), dropped = []\<rparr>"
    using switch_keys_on_record_type [OF label(2) number(2) nonzero fetch] type(2) repo
    by simp
  have third: "check scenario_utils ?ctx ?oct
     = \<lparr>events = [IssuesGet scenario_repo 7, Info (bot_prefix @ ascii ''weatherbot'')],
        outcome = Fulfilled (),
        dropped = [(CheckBot, \<lparr>pending = False, settles = Fulfilled ()\<rparr>)]\<rparr>"
    using switch_keys_on_record_type [OF label(3) number(3) nonzero fetch]
      type(3) named(2) repo
    by simp
  show ?thesis
    using first second third by simp
qed

section \<open>What \<^verbatim>\<open>check\<close> waits for\<close>

text \<open>
  The promise of \<^verbatim>\<open>check\<close> is rejected exactly when the issue fetch is, and
  with the error of the fetch.
\<close>

lemma check_rejected_iff:
  "outcome (check u ctx oct) = Rejected e \<longleftrightarrow>
     (\<exists>t n. checkLabel u (pr_labels ctx) = Some t
        \<and> extractIssueNumberFromRef u (pr_ref ctx) = Some n \<and> n \<noteq> 0
        \<and> issues_get oct (context_repo ctx) n = Rejected e)"
proof (cases u ctx oct rule: check_cases)
  case skipped
  then show ?thesis by (simp add: skipped_run_def)
next
  case (failed t)
  then show ?thesis by (auto simp: failed_run_def check_def)
next
  case (rejected t n e')
  then show ?thesis by auto
next
  case (dispatched t n issue)
  have "outcome (dispatch u oct [IssuesGet (context_repo ctx) n] (issue_info u t issue) n)
      = Fulfilled ()"
    by (simp add: dispatch_def call_and_drop_def)
  then show ?thesis using dispatched by auto
qed

text \<open>
  C5 fails on the code. The plugin validator awaits the comment post, but
  line 42 calls the validator with no \<^verbatim>\<open>await\<close>: when the post is rejected,
  the promise of \<^verbatim>\<open>check\<close> is fulfilled all the same, and the rejection
  stays on the promise that was dropped, still pending when \<^verbatim>\<open>check\<close>
  returns.
\<close>

theorem check_fulfilled_though_comment_rejected:
  "check scenario_utils (scenario_context [''Plugin''] ''issue-42'')
     (scenario_octokit 42 (scenario_issue ''echo-plugin'' ''alice'') (Rejected (RequestError 403)))
   = \<lparr>events = [IssuesGet scenario_repo 42, Info (plugin_prefix @ ascii ''echo-plugin''),
        PublishComment 42 (plugin_prefix @ ascii ''echo-plugin'' @ plugin_ok_suffix)],
      outcome = Fulfilled (),
      dropped = [(CheckPlugin, \<lparr>pending = True, settles = Rejected (RequestError 403)\<rparr>)]\<rparr>"
  by (simp add: check_def dispatch_def call_and_drop_def checkPlugin_def issue_info_def
      scenario_defs literal_defs)


section \<open>The record built from the issue\<close>

text \<open>
  C7. With the extractor of the contract, the record a run builds and
  dispatches has the type the label classifier returned and the login of the
  fetched issue's author as its author; the extractor gets the empty string
  for an absent body, and the author is the empty string when the user or
  the login is absent. The extractor is a total function of the body: no
  body makes it fail.
\<close>

theorem built_record_has_label_type_and_issue_author:
  assumes "extractInfo u = extractInfo_spec template"
    and "checkLabel u (pr_labels ctx) = Some t"
    and "extractIssueNumberFromRef u (pr_ref ctx) = Some n"
    and "n \<noteq> 0"
    and "issues_get oct (context_repo ctx) n = Fulfilled issue"
  shows "check u ctx oct
      = dispatch u oct [IssuesGet (context_repo ctx) n] (issue_info u t issue) n
    \<and> info_type (issue_info u t issue) = tag t
    \<and> author (issue_info u t issue)
        = (case user issue of
             None \<Rightarrow> empty_string
           | Some usr \<Rightarrow> (case login usr of None \<Rightarrow> empty_string | Some l \<Rightarrow> l))
    \<and> name (issue_info u t issue)
        = (case template t (case body issue of None \<Rightarrow> empty_string | Some b \<Rightarrow> b) of
             None \<Rightarrow> empty_string
           | Some v \<Rightarrow> v)"
proof -
  have "check u ctx oct
      = dispatch u oct [IssuesGet (context_repo ctx) n] (issue_info u t issue) n"
    using assms(2-5) by (rule check_dispatches)
  moreover have "issue_info u t issue
      = extractInfo_spec template t (nullish (body issue) empty_string)
          (nullish (optional_chain (user issue) login) empty_string)"
    using assms(1) by (simp add: issue_info_def)
  ultimately show ?thesis
    by (simp add: extractInfo_spec_def nullish_def optional_chain_def
        split: option.splits)
qed

theorem built_record_has_label_type_and_issue_author_witness:
  "issue_info scenario_utils Plugin (scenario_issue ''echo-plugin'' ''alice'')
     = \<lparr>info_type = ascii ''Plugin'', name = ascii ''echo-plugin'', author = ascii ''alice''\<rparr>
   \<and> issue_info scenario_utils Plugin \<lparr>body = None, user = None\<rparr>
     = \<lparr>info_type = ascii ''Plugin'', name = empty_string, author = empty_string\<rparr>"
proof -
  let ?ctx = "scenario_context [''Plugin''] ''issue-42''"
  let ?issue = "scenario_issue ''echo-plugin'' ''alice''"
  let ?oct = "scenario_octokit 42 ?issue (Fulfilled ())"
  let ?blank = "\<lparr>body = None, user = None\<rparr>"
  let ?oct' = "scenario_octokit 42 ?blank (Fulfilled ())"
  let ?template = "\<lambda>t :: ext_type. strip_prefix (ascii ''name: '')"
  have extractor: "extractInfo scenario_utils = extractInfo_spec ?template"
    by (simp add: scenario_utils_def spec_utils_def)
  have label: "checkLabel scenario_utils (pr_labels ?ctx) = Some Plugin"
    by (simp add: scenario_defs literal_defs)
  have number: "extractIssueNumberFromRef scenario_utils (pr_ref ?ctx) = Some 42"
    by (simp add: scenario_defs literal_defs)
  have nonzero: "(42::int) \<noteq> 0"
    by simp
  have fetch: "issues_get ?oct (context_repo ?ctx) 42 = Fulfilled ?issue"
      "issues_get ?oct' (context_repo ?ctx) 42 = Fulfilled ?blank"
    by (simp_all add: scenario_octokit_def)
  have first: "issue_info scenario_utils Plugin ?issue
      = \<lparr>info_type = ascii ''Plugin'', name = ascii ''echo-plugin'', author = ascii ''alice''\<rparr>"
    using built_record_has_label_type_and_issue_author
      [OF extractor label number nonzero fetch(1)]
    by (simp add: scenario_issue_def literal_defs)
  have second: "issue_info scenario_utils Plugin ?blank
      = \<lparr>info_type = ascii ''Plugin'', name = empty_string, author = empty_string\<rparr>"
    using built_record_has_label_type_and_issue_author
      [OF extractor label number nonzero fetch(2)]
    by (simp add: literal_defs)
  show ?thesis
    using first second by simp
qed

section \<open>The branch parser of the contract\<close>

lemma strip_prefix_Some_iff:
  "strip_prefix p s = Some r \<longleftrightarrow> s = p @ r"
  by (induction p s rule: strip_prefix.induct) auto

lemma strip_prefix_append:
  "strip_prefix p (p @ r) = Some r"
  by (simp add: strip_prefix_Some_iff)

text \<open>The value of a digit string is the decimal reading, and it is never negative.\<close>

lemma digits_value_snoc:
  "digits_value (ds @ [c]) = 10 * digits_value ds + digit_value c"
  by (simp add: digits_value_def)

lemma digit_value_range:
  assumes "is_digit c"
  shows "0 \<le> digit_value c \<and> digit_value c \<le> 9"
proof -
  have "48 \<le> uint c" and "uint c \<le> 57"
    using assms by (simp_all add: is_digit_def word_le_def)
  then show ?thesis
    by (simp add: digit_value_def)
qed

lemma digits_value_nonneg:
  "list_all is_digit ds \<Longrightarrow> 0 \<le> digits_value ds"
proof (induction ds rule: rev_induct)
  case Nil
  then show ?case by (simp add: digits_value_def)
next
  case (snoc c ds)
  then have "0 \<le> digits_value ds" and "0 \<le> digit_value c"
    using digit_value_range by simp_all
  then show ?case
    by (simp add: digits_value_snoc)
qed

text \<open>
  C8. The parser of the contract returns the integer the digits denote for
  a ref that is the fixed prefix followed by one or more digits with a
  positive value; it returns null for any ref that is not the prefix
  followed by digits (an empty ref, a suffix that is not numeric, a missing
  prefix), and null when the digits denote a number that is not positive.
\<close>

theorem parser_returns_positive_number_or_null:
  "(ds \<noteq> [] \<and> list_all is_digit ds \<and> 0 < digits_value ds \<longrightarrow>
      extractIssueNumberFromRef_spec pfx (Some (pfx @ ds)) = Some (digits_value ds))
   \<and> ((\<nexists>ds'. ref = pfx @ ds' \<and> ds' \<noteq> [] \<and> list_all is_digit ds') \<longrightarrow>
      extractIssueNumberFromRef_spec pfx (Some ref) = None)
   \<and> (digits_value ds \<le> 0 \<longrightarrow>
      extractIssueNumberFromRef_spec pfx (Some (pfx @ ds)) = None)
   \<and> (extractIssueNumberFromRef_spec pfx (Some ref) = Some k \<longrightarrow> 0 < k)"
proof (intro conjI impI)
  assume "ds \<noteq> [] \<and> list_all is_digit ds \<and> 0 < digits_value ds"
  then show "extractIssueNumberFromRef_spec pfx (Some (pfx @ ds)) = Some (digits_value ds)"
    by (simp add: extractIssueNumberFromRef_spec_def strip_prefix_append)
next
  assume other: "\<nexists>ds'. ref = pfx @ ds' \<and> ds' \<noteq> [] \<and> list_all is_digit ds'"
  show "extractIssueNumberFromRef_spec pfx (Some ref) = None"
  proof (cases "strip_prefix pfx ref")
    case None
    then show ?thesis by (simp add: extractIssueNumberFromRef_spec_def)
  next
    case (Some rest)
    then have "ref = pfx @ rest"
      by (simp add: strip_prefix_Some_iff)
    then have "\<not> (rest \<noteq> [] \<and> list_all is_digit rest)"
      using other by blast
    then show ?thesis
      using Some by (auto simp: extractIssueNumberFromRef_spec_def)
  qed
next
  assume "digits_value ds \<le> 0"
  then show "extractIssueNumberFromRef_spec pfx (Some (pfx @ ds)) = None"
    by (simp add: extractIssueNumberFromRef_spec_def strip_prefix_append)
next
  assume "extractIssueNumberFromRef_spec pfx (Some ref) = Some k"
  then show "0 < k"
    by (auto simp: extractIssueNumberFromRef_spec_def split: option.splits if_splits)
qed

theorem parser_returns_positive_number_or_null_witness:
  "extractIssueNumberFromRef_spec (ascii ''issue-'') (Some (ascii ''issue-'' @ ascii ''42''))
     = Some 42
   \<and> extractIssueNumberFromRef_spec (ascii ''issue-'') (Some (ascii ''not-an-issue-branch''))
     = None
   \<and> extractIssueNumberFromRef_spec (ascii ''issue-'') (Some (ascii ''issue-'' @ ascii ''4x''))
     = None
   \<and> extractIssueNumberFromRef_spec (ascii ''issue-'') (Some []) = None
   \<and> extractIssueNumberFromRef_spec (ascii ''issue-'') (Some (ascii ''issue-'' @ ascii ''00''))
     = None"
proof -
  let ?pfx = "ascii ''issue-''"
  have digits: "ascii ''42'' \<noteq> [] \<and> list_all is_digit (ascii ''42'')
      \<and> 0 < digits_value (ascii ''42'')"
    by (simp add: ascii_def is_digit_def digits_value_def digit_value_def)
  have reading: "digits_value (ascii ''42'') = 42"
    by (simp add: ascii_def digits_value_def digit_value_def)
  have zero: "digits_value (ascii ''00'') \<le> 0"
    by (simp add: ascii_def digits_value_def digit_value_def)
  have branch: "\<nexists>ds'. ascii ''not-an-issue-branch'' = ?pfx @ ds' \<and> ds' \<noteq> []
      \<and> list_all is_digit ds'"
    by (simp add: ascii_def)
  have suffix: "\<nexists>ds'. ?pfx @ ascii ''4x'' = ?pfx @ ds' \<and> ds' \<noteq> []
      \<and> list_all is_digit ds'"
    by (simp add: ascii_def is_digit_def)
  have empty: "\<nexists>ds'. [] = ?pfx @ ds' \<and> ds' \<noteq> [] \<and> list_all is_digit ds'"
    by (simp add: ascii_def)
  show ?thesis
    using digits reading zero branch suffix empty
      parser_returns_positive_number_or_null [of "ascii ''42''" ?pfx "ascii ''not-an-issue-branch''"]
      parser_returns_positive_number_or_null [of "ascii ''00''" ?pfx "?pfx @ ascii ''4x''"]
      parser_returns_positive_number_or_null [of "ascii ''00''" ?pfx "[]"]
    by metis
qed

end
